theory Spec2Isabelle
  imports Main
begin

section \<open>The sessions manager of \<^verbatim>\<open>sessions/sessions.go\<close>\<close>

text \<open>
  The manager ties a request context to a provider-managed session through one cookie.
  The embedding passes the program state explicitly: every method of the source that
  takes the manager \<^verbatim>\<open>s\<close> and the context \<^verbatim>\<open>ctx\<close> becomes a function on a
  \<open>world\<close>, the record of the manager, the request context, the Session objects that
  pointers refer to, and the clock.
\<close>

subsection \<open>Time\<close>

text \<open>
  \<^verbatim>\<open>time.Duration\<close> is a signed count of nanoseconds. An instant (\<^verbatim>\<open>time.Time\<close>) is
  counted in nanoseconds from Go's zero \<^verbatim>\<open>time.Time\<close>, so \<open>0\<close> is the zero value that
  a fresh \<^verbatim>\<open>http.Cookie\<close> holds in \<^verbatim>\<open>Expires\<close>.
\<close>

type_synonym duration = int
type_synonym time = int

definition minDuration :: duration where
  "minDuration = - (2 ^ 63)"

definition maxDuration :: duration where
  "maxDuration = 2 ^ 63 - 1"

definition time_Add :: "time \<Rightarrow> duration \<Rightarrow> time" where
  "time_Add t d = t + d"

text \<open>\<^verbatim>\<open>t.Sub(u)\<close> saturates at the smallest and the largest duration.\<close>

definition time_Sub :: "time \<Rightarrow> time \<Rightarrow> duration" where
  "time_Sub t u =
     (let d = t - u
      in if d < minDuration then minDuration
         else if maxDuration < d then maxDuration
         else d)"

subsection \<open>Cookies, cookie options and the request context\<close>

text \<open>
  The fields of \<^verbatim>\<open>http.Cookie\<close> that the manager assigns. \<^verbatim>\<open>&http.Cookie{}\<close> is the
  zero value of each.
\<close>

record http_Cookie =
  Cookie_Name :: string
  Cookie_Value :: string
  Cookie_Path :: string
  Cookie_HttpOnly :: bool
  Cookie_Expires :: time
  Cookie_MaxAge :: int

definition empty_Cookie :: http_Cookie where
  "empty_Cookie =
     \<lparr>Cookie_Name = [], Cookie_Value = [], Cookie_Path = [], Cookie_HttpOnly = False,
      Cookie_Expires = 0, Cookie_MaxAge = 0\<rparr>"

text \<open>
  The comment of \<^verbatim>\<open>updateCookie\<close> on \<^verbatim>\<open>MaxAge\<close>: \<^verbatim>\<open>MaxAge=0\<close> means no
  \<^verbatim>\<open>Max-Age\<close> attribute, \<^verbatim>\<open>MaxAge<0\<close> means delete the cookie now, \<^verbatim>\<open>MaxAge>0\<close>
  means the attribute is present, in seconds. An \<^verbatim>\<open>Expires\<close> left at the zero time is
  not set.
\<close>

definition has_MaxAge :: "http_Cookie \<Rightarrow> bool" where
  "has_MaxAge c = (Cookie_MaxAge c \<noteq> 0)"

definition has_Expires :: "http_Cookie \<Rightarrow> bool" where
  "has_Expires c = (Cookie_Expires c \<noteq> 0)"

definition no_expiration_attribute :: "http_Cookie \<Rightarrow> bool" where
  "no_expiration_attribute c = (\<not> has_MaxAge c \<and> \<not> has_Expires c)"

definition expires_immediately :: "time \<Rightarrow> http_Cookie \<Rightarrow> bool" where
  "expires_immediately now c =
     (Cookie_MaxAge c < 0 \<or> (has_Expires c \<and> Cookie_Expires c \<le> now))"

text \<open>
  A \<^verbatim>\<open>context.CookieOption\<close> is a function of the request layer; the manager only
  builds and forwards them, so they are data here: the five constructors the source
  names, and \<open>CookieOptionOther\<close> for any other option a caller hands in.
\<close>

datatype encoding = Encoding_codec string

datatype cookie_option =
    CookieAllowReclaim "string list"
  | CookieAllowSubdomains "string list"
  | CookieSecure
  | CookieEncoding encoding "string list"
  | CookiePath string
  | CookieOptionOther string

type_synonym session_ptr = nat

text \<open>
  A value of the request-scoped store: a \<^verbatim>\<open>*Session\<close> (\<open>None\<close> is the nil pointer)
  or a value of any other type.
\<close>

datatype ctx_value =
    VSession "session_ptr option"
  | VOther string

text \<open>What the manager asked the request layer to do to the response's cookies.\<close>

datatype cookie_write =
    Upserted http_Cookie "cookie_option list"
  | Removed string "cookie_option list"

text \<open>
  Modelled from the spec: the request context (package \<^verbatim>\<open>context\<close> is not under
  src/). The spec assumes only that a context "can get/set a named cookie and can carry
  per-request key/value state". \<open>request_cookie\<close> is what reading a named cookie
  answers, the empty string when the request carries none; \<open>response\<close> is the sequence
  of cookie writes and removals, each with the options in effect (the request's
  life-cycle options, then the call's own); \<open>Values\<close> is the key/value state.
\<close>

record Context =
  request_cookie :: "string \<Rightarrow> string"
  cookie_options :: "cookie_option list"
  response :: "cookie_write list"
  Values :: "string \<Rightarrow> ctx_value option"

definition GetCookie :: "Context \<Rightarrow> string \<Rightarrow> cookie_option list \<Rightarrow> string" where
  "GetCookie ctx name options = request_cookie ctx name"

definition UpsertCookie :: "Context \<Rightarrow> http_Cookie \<Rightarrow> cookie_option list \<Rightarrow> Context" where
  "UpsertCookie ctx cookie options =
     ctx\<lparr>response := response ctx @ [Upserted cookie (cookie_options ctx @ options)]\<rparr>"

definition RemoveCookie :: "Context \<Rightarrow> string \<Rightarrow> cookie_option list \<Rightarrow> Context" where
  "RemoveCookie ctx name options =
     ctx\<lparr>response := response ctx @ [Removed name (cookie_options ctx @ options)]\<rparr>"

definition AddCookieOptions :: "Context \<Rightarrow> cookie_option list \<Rightarrow> Context" where
  "AddCookieOptions ctx options = ctx\<lparr>cookie_options := cookie_options ctx @ options\<rparr>"

definition Values_Set :: "Context \<Rightarrow> string \<Rightarrow> ctx_value \<Rightarrow> Context" where
  "Values_Set ctx key v = ctx\<lparr>Values := (Values ctx)(key \<mapsto> v)\<rparr>"

definition Values_Get :: "Context \<Rightarrow> string \<Rightarrow> ctx_value option" where
  "Values_Get ctx key = Values ctx key"

definition Values_Remove :: "Context \<Rightarrow> string \<Rightarrow> Context" where
  "Values_Remove ctx key = ctx\<lparr>Values := (Values ctx)(key := None)\<rparr>"

subsection \<open>Configuration, sessions and the provider\<close>

text \<open>The fields of \<^verbatim>\<open>Config\<close> that \<^verbatim>\<open>sessions.go\<close> reads.\<close>

record Config =
  Cookie :: string
  Expires :: duration
  AllowReclaim :: bool
  DisableSubdomainPersistence :: bool
  CookieSecureTLS :: bool
  Encoding :: "encoding option"
  SessionIDGenerator :: "Context \<Rightarrow> string"

datatype error = ErrNotFound | ErrNotImplemented

text \<open>
  Modelled from the spec: the Session Record (\<^verbatim>\<open>session.go\<close> is not under src/):
  its id, its expiration (an absolute instant, or the sentinel for no expiration, or the
  sentinel for immediate expiry), the \<open>isNew\<close> flag and the key/value store.
\<close>

datatype lifetime = Unlimited | Deadline time | ExpireImmediately

record session =
  sess_id :: string
  expiresAt :: lifetime
  isNew :: bool
  store :: "(string \<times> string) list"

definition session_Len :: "session \<Rightarrow> int" where
  "session_Len sess = int (length (store sess))"

text \<open>
  Modelled from the spec: the Database, "given an id, can enumerate persisted
  keys/values", with \<^verbatim>\<open>Len(id)\<close>; \<open>persists_expiration\<close> says whether it can persist
  a new deadline.
\<close>

record database =
  entries :: "string \<Rightarrow> (string \<times> string) list"
  persists_expiration :: bool

definition db_Len :: "database \<Rightarrow> string \<Rightarrow> int" where
  "db_Len d sid = int (length (entries d sid))"

type_synonym DestroyListener = string

text \<open>
  Modelled from the spec: the Provider (\<^verbatim>\<open>provider.go\<close> is not under src/), the
  registry from session id to Session Record, the database \<^verbatim>\<open>db\<close> that
  \<^verbatim>\<open>Sessions.Start\<close> reads, and the destroy listeners in registration order.
\<close>

record provider =
  sessions :: "(string \<times> session_ptr) list"
  db :: database
  destroyListeners :: "DestroyListener list"

record Sessions =
  config :: Config
  provider :: provider
  handlerCookieOpts :: "cookie_option list"

text \<open>
  The state of one request: the manager, the request's context, the Session objects
  (a \<^verbatim>\<open>*Session\<close> is an index into \<open>heap\<close>), the destroy listeners fired so far, and
  the clock: \<open>clock w n\<close> is the instant the \<open>n\<close>-th call of \<^verbatim>\<open>time.Now()\<close> returns
  and \<open>ticks\<close> counts the calls made. \<open>CookieExpireUnlimited\<close> is the instant of that
  name in package \<^verbatim>\<open>context\<close>, which is not under src/, and \<open>seconds_int d\<close> stands
  for \<^verbatim>\<open>int(d.Seconds())\<close>, a conversion through \<^verbatim>\<open>float64\<close>: both are parameters.
\<close>

record world =
  manager :: Sessions
  request :: Context
  heap :: "session list"
  fired :: "(DestroyListener \<times> string) list"
  clock :: "nat \<Rightarrow> time"
  ticks :: nat
  CookieExpireUnlimited :: time
  seconds_int :: "duration \<Rightarrow> int"

definition time_Now :: "world \<Rightarrow> time \<times> world" where
  "time_Now w = (clock w (ticks w), w\<lparr>ticks := Suc (ticks w)\<rparr>)"

definition time_Until :: "world \<Rightarrow> time \<Rightarrow> duration \<times> world" where
  "time_Until w t = (let (now, w') = time_Now w in (time_Sub t now, w'))"

definition deref :: "world \<Rightarrow> session_ptr \<Rightarrow> session option" where
  "deref w r = (if r < length (heap w) then Some (heap w ! r) else None)"

definition set_provider :: "world \<Rightarrow> provider \<Rightarrow> world" where
  "set_provider w p = w\<lparr>manager := (manager w)\<lparr>provider := p\<rparr>\<rparr>"

text \<open>
  \<^verbatim>\<open>sess.isNew = b\<close> through the pointer. The write changes the one Session object,
  which the registry refers to as well.
\<close>

definition set_isNew :: "world \<Rightarrow> session_ptr \<Rightarrow> bool \<Rightarrow> world" where
  "set_isNew w r b =
     (case deref w r of
        None \<Rightarrow> w
      | Some sess \<Rightarrow> w\<lparr>heap := (heap w)[r := sess\<lparr>isNew := b\<rparr>]\<rparr>)"

definition set_expiresAt :: "world \<Rightarrow> session_ptr \<Rightarrow> lifetime \<Rightarrow> world" where
  "set_expiresAt w r l =
     (case deref w r of
        None \<Rightarrow> w
      | Some sess \<Rightarrow> w\<lparr>heap := (heap w)[r := sess\<lparr>expiresAt := l\<rparr>]\<rparr>)"

text \<open>
  Modelled from the spec: how the Provider schedules expiration, "0 = unlimited, >0 =
  absolute deadline, negative = immediate-expire-on-next-check".
\<close>

definition schedule :: "world \<Rightarrow> duration \<Rightarrow> lifetime \<times> world" where
  "schedule w expires =
     (if expires = 0 then (Unlimited, w)
      else if 0 < expires then
        (let (now, w') = time_Now w in (Deadline (time_Add now expires), w'))
      else (ExpireImmediately, w))"

text \<open>
  Modelled from the spec: \<^verbatim>\<open>Provider.Init\<close>, which "creates a new Record for id, sets
  isNew = (no prior entries found for id across registered databases), schedules
  expiration according to expires" and must not fail. The new Record has an empty store
  and takes the place of any Record the registry held for the id.
\<close>

definition provider_Init :: "world \<Rightarrow> string \<Rightarrow> duration \<Rightarrow> session_ptr \<times> world" where
  "provider_Init w sid expires =
     (let (l, w1) = schedule w expires;
          p = provider (manager w1);
          r = length (heap w1);
          sess = \<lparr>sess_id = sid, expiresAt = l, isNew = (db_Len (db p) sid = 0), store = []\<rparr>;
          w2 = w1\<lparr>heap := heap w1 @ [sess]\<rparr>
      in (r, set_provider w2
                (p\<lparr>sessions := (sid, r) # filter (\<lambda>e. fst e \<noteq> sid) (sessions p)\<rparr>)))"

text \<open>
  Modelled from the spec: \<^verbatim>\<open>Provider.Read\<close>, which "looks up an existing Record for
  id; if missing, behaves like Init".
\<close>

definition provider_Read :: "world \<Rightarrow> string \<Rightarrow> duration \<Rightarrow> session_ptr \<times> world" where
  "provider_Read w sid expires =
     (case map_of (sessions (provider (manager w))) sid of
        Some r \<Rightarrow> (r, w)
      | None \<Rightarrow> provider_Init w sid expires)"

text \<open>
  Modelled from the spec: \<^verbatim>\<open>Provider.UpdateExpiration\<close>, which "resets the deadline
  of the Record for id. Fails with ErrNotFound if no Record (and no database) has this
  id; fails with ErrNotImplemented if an attached database was expected to persist the
  new deadline and cannot."
\<close>

definition provider_UpdateExpiration ::
  "world \<Rightarrow> string \<Rightarrow> duration \<Rightarrow> error option \<times> world" where
  "provider_UpdateExpiration w sid expires =
     (let p = provider (manager w)
      in case map_of (sessions p) sid of
           None \<Rightarrow>
             if db_Len (db p) sid = 0 then (Some ErrNotFound, w)
             else if persists_expiration (db p) then (None, w)
             else (Some ErrNotImplemented, w)
         | Some r \<Rightarrow>
             (let (l, w1) = schedule w expires;
                  w2 = set_expiresAt w1 r l
              in if persists_expiration (db p) then (None, w2)
                 else (Some ErrNotImplemented, w2)))"

text \<open>
  Modelled from the spec: \<^verbatim>\<open>Provider.Destroy\<close>, which "removes the Record, detaches
  any backing database entry, and invokes all registered destroy listeners with id,
  synchronously and in registration order; idempotent: destroying a non-existent id is a
  no-op, not an error".
\<close>

definition provider_Destroy :: "world \<Rightarrow> string \<Rightarrow> world" where
  "provider_Destroy w sid =
     (let p = provider (manager w)
      in case map_of (sessions p) sid of
           None \<Rightarrow> w
         | Some r \<Rightarrow>
             (set_provider w
                (p\<lparr>sessions := filter (\<lambda>e. fst e \<noteq> sid) (sessions p),
                   db := (db p)\<lparr>entries := (entries (db p))(sid := [])\<rparr>\<rparr>))
             \<lparr>fired := fired w @ map (\<lambda>ln. (ln, sid)) (destroyListeners p)\<rparr>)"

text \<open>
  Modelled from the spec: \<^verbatim>\<open>Provider.DestroyAll\<close>, which "drains the entire
  registry, invoking destroy listeners for each id".
\<close>

definition provider_DestroyAll :: "world \<Rightarrow> world" where
  "provider_DestroyAll w =
     fold (\<lambda>sid w'. provider_Destroy w' sid) (map fst (sessions (provider (manager w)))) w"

definition registerDestroyListener :: "world \<Rightarrow> DestroyListener \<Rightarrow> world" where
  "registerDestroyListener w ln =
     set_provider w
       ((provider (manager w))
          \<lparr>destroyListeners := destroyListeners (provider (manager w)) @ [ln]\<rparr>)"

subsection \<open>The manager\<close>

definition GetCookieOptions :: "world \<Rightarrow> cookie_option list" where
  "GetCookieOptions w = handlerCookieOpts (manager w)"

text \<open>
  \<^verbatim>\<open>updateCookie\<close>: the cookie is built from the zero value; \<^verbatim>\<open>Expires\<close> and
  \<^verbatim>\<open>MaxAge\<close> are assigned only under \<^verbatim>\<open>expires >= 0\<close>. \<^verbatim>\<open>time.Until\<close> reads the
  clock again, after the \<^verbatim>\<open>time.Now()\<close> of the positive branch.
\<close>

definition updateCookie :: "world \<Rightarrow> string \<Rightarrow> duration \<Rightarrow> cookie_option list \<Rightarrow> world" where
  "updateCookie w sid expires options =
     (let cookie = empty_Cookie
            \<lparr>Cookie_Name := Cookie (config (manager w)), Cookie_Value := sid,
             Cookie_Path := ''/'', Cookie_HttpOnly := True\<rparr>
      in if 0 \<le> expires then
           (let (cookie1, w1) =
                  (if expires = 0 then (cookie\<lparr>Cookie_Expires := CookieExpireUnlimited w\<rparr>, w)
                   else (let (now, w') = time_Now w
                         in (cookie\<lparr>Cookie_Expires := time_Add now expires\<rparr>, w')));
                (d, w2) = time_Until w1 (Cookie_Expires cookie1);
                cookie2 = cookie1\<lparr>Cookie_MaxAge := seconds_int w d\<rparr>
            in w2\<lparr>request := UpsertCookie (request w2) cookie2 options\<rparr>)
         else w\<lparr>request := UpsertCookie (request w) cookie options\<rparr>)"

text \<open>
  \<^verbatim>\<open>Start\<close>. The two methods of the provider it calls, \<^verbatim>\<open>Init\<close> and
  \<^verbatim>\<open>Read\<close>, are not under src/: \<open>Start_with\<close> is the body of \<^verbatim>\<open>Start\<close> with
  the two methods as arguments, and \<open>Start\<close> is that body with the provider modelled
  from the spec.
\<close>

definition Start_with ::
  "(world \<Rightarrow> string \<Rightarrow> duration \<Rightarrow> session_ptr \<times> world) \<Rightarrow>
   (world \<Rightarrow> string \<Rightarrow> duration \<Rightarrow> session_ptr \<times> world) \<Rightarrow>
   world \<Rightarrow> cookie_option list \<Rightarrow> session_ptr \<times> world" where
  "Start_with p_Init p_Read w cookieOptions =
     (let cfg = config (manager w);
          cookieValue = GetCookie (request w) (Cookie cfg) cookieOptions
      in if cookieValue = [] then
           (let sid = SessionIDGenerator cfg (request w);
                (sess, w1) = p_Init w sid (Expires cfg);
                w2 = set_isNew w1 sess (db_Len (db (provider (manager w1))) sid = 0);
                w3 = updateCookie w2 sid (Expires cfg) cookieOptions
            in (sess, w3))
         else p_Read w cookieValue (Expires cfg))"

definition Start :: "world \<Rightarrow> cookie_option list \<Rightarrow> session_ptr \<times> world" where
  "Start w cookieOptions = Start_with provider_Init provider_Read w cookieOptions"

definition sessionContextKey :: string where
  "sessionContextKey = ''iris.session''"

text \<open>
  \<^verbatim>\<open>Handler\<close> stores the options, builds \<^verbatim>\<open>requestOptions\<close> from the configuration
  once and returns a closure. \<open>Handler_func\<close> is the closure, with the two captured
  lists as arguments; \<^verbatim>\<open>ctx.Next()\<close> runs the rest of the handler chain, the argument
  \<open>next\<close>.
\<close>

definition requestOptions :: "Config \<Rightarrow> cookie_option list" where
  "requestOptions cfg =
     (if AllowReclaim cfg then [CookieAllowReclaim [Cookie cfg]] else []) @
     (if \<not> DisableSubdomainPersistence cfg then [CookieAllowSubdomains [Cookie cfg]] else []) @
     (if CookieSecureTLS cfg then [CookieSecure] else []) @
     (case Encoding cfg of
        None \<Rightarrow> []
      | Some enc \<Rightarrow> [CookieEncoding enc [Cookie cfg]])"

definition Handler_func ::
  "cookie_option list \<Rightarrow> cookie_option list \<Rightarrow> (world \<Rightarrow> world) \<Rightarrow> world \<Rightarrow> world" where
  "Handler_func reqOptions cookieOptions next w =
     (let w1 = w\<lparr>request := AddCookieOptions (request w) reqOptions\<rparr>;
          (session, w2) = Start w1 cookieOptions;
          w3 = w2\<lparr>request := Values_Set (request w2) sessionContextKey (VSession (Some session))\<rparr>
      in next w3)"

definition Handler ::
  "world \<Rightarrow> cookie_option list \<Rightarrow> ((world \<Rightarrow> world) \<Rightarrow> world \<Rightarrow> world) \<times> world" where
  "Handler w cookieOptions =
     (let w' = w\<lparr>manager := (manager w)\<lparr>handlerCookieOpts := cookieOptions\<rparr>\<rparr>
      in (Handler_func (requestOptions (config (manager w'))) cookieOptions, w'))"

definition Get :: "Context \<Rightarrow> session_ptr option" where
  "Get ctx =
     (case Values_Get ctx sessionContextKey of
        Some (VSession sess) \<Rightarrow> sess
      | _ \<Rightarrow> None)"

definition StartWithPath :: "world \<Rightarrow> string \<Rightarrow> session_ptr \<times> world" where
  "StartWithPath w path = Start w [CookiePath path]"

definition UpdateExpiration ::
  "world \<Rightarrow> duration \<Rightarrow> cookie_option list \<Rightarrow> error option \<times> world" where
  "UpdateExpiration w expires cookieOptions =
     (let cookieValue = GetCookie (request w) (Cookie (config (manager w))) []
      in if cookieValue = [] then (Some ErrNotFound, w)
         else
           (let (err, w1) = provider_UpdateExpiration w cookieValue expires
            in if err = None \<or> expires = -1
               then (err, updateCookie w1 cookieValue expires cookieOptions)
               else (err, w1)))"

definition ShiftExpiration :: "world \<Rightarrow> cookie_option list \<Rightarrow> error option \<times> world" where
  "ShiftExpiration w cookieOptions =
     UpdateExpiration w (Expires (config (manager w))) cookieOptions"

definition OnDestroy :: "world \<Rightarrow> DestroyListener list \<Rightarrow> world" where
  "OnDestroy w listeners = fold (\<lambda>ln w'. registerDestroyListener w' ln) listeners w"

definition Destroy :: "world \<Rightarrow> world" where
  "Destroy w =
     (let cookieValue = GetCookie (request w) (Cookie (config (manager w))) []
      in if cookieValue = [] then w
         else
           (let w1 = w\<lparr>request := Values_Remove (request w) sessionContextKey\<rparr>;
                w2 = w1\<lparr>request := RemoveCookie (request w1) (Cookie (config (manager w1))) []\<rparr>
            in provider_Destroy w2 cookieValue))"

definition DestroyByID :: "world \<Rightarrow> string \<Rightarrow> world" where
  "DestroyByID w sid = provider_Destroy w sid"

definition DestroyAll :: "world \<Rightarrow> world" where
  "DestroyAll w = provider_DestroyAll w"


subsection \<open>Auxiliary notions of the statements\<close>

text \<open>
  A session id is unknown when neither the registry nor the database has it.
\<close>

definition unknown_id :: "world \<Rightarrow> string \<Rightarrow> bool" where
  "unknown_id w sid =
     (map_of (sessions (provider (manager w))) sid = None \<and>
      db_Len (db (provider (manager w))) sid = 0)"

text \<open>The cookie of the latest cookie write of the response, if that is an upsert.\<close>

definition written_cookie :: "world \<Rightarrow> http_Cookie option" where
  "written_cookie w =
     (case rev (response (request w)) of
        Upserted c options # ws \<Rightarrow> Some c
      | _ \<Rightarrow> None)"

subsection \<open>A concrete scenario\<close>

text \<open>
  The example of the spec: a manager configured with \<^verbatim>\<open>Cookie = "sid"\<close> and
  \<^verbatim>\<open>Expires = 0\<close>, whose generator yields \<^verbatim>\<open>abc123\<close>, an empty registry and an
  empty database, and a request without cookies. The clock starts at an instant of the
  year 2026 and advances by a microsecond per reading; \<open>CookieExpireUnlimited\<close> lies
  784000000 seconds later; seconds are truncated towards zero.
\<close>

definition seconds_trunc :: "duration \<Rightarrow> int" where
  "seconds_trunc d = (if d < 0 then - ((- d) div 1000000000) else d div 1000000000)"

definition config0 :: Config where
  "config0 =
     \<lparr>Cookie = ''sid'', Expires = 0, AllowReclaim = False,
      DisableSubdomainPersistence = False, CookieSecureTLS = False, Encoding = None,
      SessionIDGenerator = (\<lambda>ctx. ''abc123'')\<rparr>"

definition ctx0 :: Context where
  "ctx0 = \<lparr>request_cookie = (\<lambda>name. []), cookie_options = [], response = [],
           Values = (\<lambda>key. None)\<rparr>"

definition world0 :: world where
  "world0 =
     \<lparr>manager =
        \<lparr>config = config0,
         provider = \<lparr>sessions = [], db = \<lparr>entries = (\<lambda>sid. []), persists_expiration = True\<rparr>,
                     destroyListeners = []\<rparr>,
         handlerCookieOpts = []\<rparr>,
      request = ctx0, heap = [], fired = [],
      clock = (\<lambda>n. 63929088000000000000 + 1000 * int n), ticks = 0,
      CookieExpireUnlimited = 64713088000000000000,
      seconds_int = seconds_trunc\<rparr>"

text \<open>The next request arrives with the manager's cookie set to \<open>v\<close>.\<close>

definition next_request :: "world \<Rightarrow> string \<Rightarrow> world" where
  "next_request w v =
     w\<lparr>request :=
         ctx0\<lparr>request_cookie := (\<lambda>name. if name = Cookie (config (manager w)) then v else [])\<rparr>\<rparr>"

text \<open>
  \<open>world1\<close>: the visitor of \<open>world0\<close> comes back with the cookie \<^verbatim>\<open>sid=abc123\<close>
  that \<open>Start\<close> gave it. \<open>world_unknown\<close>: a request presents an id nobody knows.
\<close>

definition world1 :: world where
  "world1 = next_request (snd (Start world0 [])) ''abc123''"

definition world_unknown :: world where
  "world_unknown = next_request world0 ''zzz''"

text \<open>
  \<open>world_readonly\<close>: as \<open>world1\<close>, with a database that cannot persist a deadline.
  \<open>world_persisted\<close>: as \<open>world0\<close>, with a database that already holds an entry for
  the id the generator yields.
\<close>

definition world_readonly :: world where
  "world_readonly =
     set_provider world1
       ((provider (manager world1))
          \<lparr>db := (db (provider (manager world1)))\<lparr>persists_expiration := False\<rparr>\<rparr>)"

definition world_persisted :: world where
  "world_persisted =
     set_provider world0
       ((provider (manager world0))
          \<lparr>db := (db (provider (manager world0)))
                  \<lparr>entries := (\<lambda>sid. if sid = ''abc123'' then [(''user'', ''alice'')] else [])\<rparr>\<rparr>)"

text \<open>
  An \<^verbatim>\<open>Init\<close> that creates the Record as \<open>provider_Init\<close> does and leaves its
  \<open>isNew\<close> flag at \<open>b\<close>.
\<close>

definition Init_leaving ::
  "bool \<Rightarrow> world \<Rightarrow> string \<Rightarrow> duration \<Rightarrow> session_ptr \<times> world" where
  "Init_leaving b w sid e =
     (let (r, w1) = provider_Init w sid e in (r, set_isNew w1 r b))"

section \<open>Properties\<close>

lemmas scenario_defs =
  world0_def world1_def world_unknown_def world_readonly_def world_persisted_def
  Init_leaving_def config0_def ctx0_def next_request_def
  seconds_trunc_def written_cookie_def unknown_id_def

lemmas model_defs =
  Start_def Start_with_def updateCookie_def UpdateExpiration_def Destroy_def
  provider_Init_def provider_Read_def provider_UpdateExpiration_def provider_Destroy_def
  schedule_def set_isNew_def set_expiresAt_def set_provider_def deref_def db_Len_def
  GetCookie_def UpsertCookie_def RemoveCookie_def AddCookieOptions_def
  Values_Set_def Values_Get_def Values_Remove_def
  time_Now_def time_Until_def time_Add_def time_Sub_def minDuration_def maxDuration_def
  empty_Cookie_def

subsection \<open>What the provider leaves alone\<close>

lemma provider_Init_request: "request (snd (provider_Init w sid e)) = request w"
  by (simp add: provider_Init_def set_provider_def schedule_def time_Now_def Let_def
      split: prod.splits)

lemma provider_Init_config: "config (manager (snd (provider_Init w sid e))) = config (manager w)"
  by (simp add: provider_Init_def set_provider_def schedule_def time_Now_def Let_def
      split: prod.splits)

lemma provider_Init_db:
  "db (provider (manager (snd (provider_Init w sid e)))) = db (provider (manager w))"
  by (simp add: provider_Init_def set_provider_def schedule_def time_Now_def Let_def
      split: prod.splits)

lemma provider_Init_creates:
  "deref (snd (provider_Init w sid e)) (fst (provider_Init w sid e)) =
     Some \<lparr>sess_id = sid, expiresAt = fst (schedule w e),
           isNew = (db_Len (db (provider (manager w))) sid = 0), store = []\<rparr>"
  by (simp add: provider_Init_def set_provider_def deref_def schedule_def time_Now_def Let_def
      split: prod.splits)

lemma provider_Read_request: "request (snd (provider_Read w sid e)) = request w"
  by (simp add: provider_Read_def provider_Init_request split: option.splits)

lemma provider_Read_unknown:
  "unknown_id w sid \<Longrightarrow> provider_Read w sid e = provider_Init w sid e"
  by (simp add: provider_Read_def unknown_id_def)

lemma provider_UpdateExpiration_request:
  "request (snd (provider_UpdateExpiration w sid e)) = request w"
  by (simp add: provider_UpdateExpiration_def set_expiresAt_def schedule_def time_Now_def Let_def
      split: option.splits prod.splits)

lemma provider_UpdateExpiration_config:
  "config (manager (snd (provider_UpdateExpiration w sid e))) = config (manager w)"
  by (simp add: provider_UpdateExpiration_def set_expiresAt_def schedule_def time_Now_def Let_def
      split: option.splits prod.splits)

lemma provider_UpdateExpiration_unknown:
  "unknown_id w sid \<Longrightarrow> provider_UpdateExpiration w sid e = (Some ErrNotFound, w)"
  by (simp add: provider_UpdateExpiration_def unknown_id_def Let_def)

lemma provider_Destroy_request: "request (provider_Destroy w sid) = request w"
  by (simp add: provider_Destroy_def set_provider_def Let_def split: option.splits)

lemma provider_Destroy_request_update:
  "provider_Destroy (w\<lparr>request := c\<rparr>) sid = (provider_Destroy w sid)\<lparr>request := c\<rparr>"
  by (simp add: provider_Destroy_def set_provider_def Let_def split: option.splits)

lemma map_of_filter_removed: "map_of (filter (\<lambda>e. fst e \<noteq> k) xs) k = None"
  by (induction xs) auto

lemma provider_Destroy_unregisters:
  "map_of (sessions (provider (manager (provider_Destroy w sid)))) sid = None"
  by (simp add: provider_Destroy_def set_provider_def Let_def map_of_filter_removed
      split: option.splits)

lemma provider_DestroyAll_fold:
  "fold (\<lambda>sid w'. provider_Destroy w' sid) ids (w\<lparr>request := c\<rparr>) =
   (fold (\<lambda>sid w'. provider_Destroy w' sid) ids w)\<lparr>request := c\<rparr>"
  by (induction ids arbitrary: w) (simp_all add: provider_Destroy_request_update)

lemma provider_DestroyAll_request_update:
  "provider_DestroyAll (w\<lparr>request := c\<rparr>) = (provider_DestroyAll w)\<lparr>request := c\<rparr>"
  by (simp add: provider_DestroyAll_def provider_DestroyAll_fold)

lemma provider_DestroyAll_request: "request (provider_DestroyAll w) = request w"
proof -
  have "request (fold (\<lambda>sid w'. provider_Destroy w' sid) ids w) = request w" for ids
    by (induction ids arbitrary: w) (simp_all add: provider_Destroy_request)
  then show ?thesis by (simp add: provider_DestroyAll_def)
qed

subsection \<open>The cookie write\<close>

lemma updateCookie_response:
  "\<exists>c. response (request (updateCookie w sid e options)) =
         response (request w) @ [Upserted c (cookie_options (request w) @ options)] \<and>
       Cookie_Name c = Cookie (config (manager w)) \<and> Cookie_Value c = sid"
  by (simp add: updateCookie_def UpsertCookie_def empty_Cookie_def time_Until_def time_Now_def
      Let_def split: prod.splits)

lemma updateCookie_frame:
  "manager (updateCookie w sid e options) = manager w"
  "heap (updateCookie w sid e options) = heap w"
  "fired (updateCookie w sid e options) = fired w"
  by (simp_all add: updateCookie_def UpsertCookie_def time_Until_def time_Now_def Let_def
      split: prod.splits)

lemma deref_updateCookie: "deref (updateCookie w sid e opts) r = deref w r"
  by (simp add: deref_def updateCookie_frame)

lemma set_isNew_frame:
  "manager (set_isNew w r b) = manager w"
  "request (set_isNew w r b) = request w"
  by (simp_all add: set_isNew_def split: option.splits)

lemma deref_set_isNew:
  "deref w r = Some sess \<Longrightarrow> deref (set_isNew w r b) r = Some (sess\<lparr>isNew := b\<rparr>)"
  by (simp add: set_isNew_def deref_def split: if_splits)

subsection \<open>The two branches of \<open>Start\<close>\<close>

lemma Start_with_absent:
  assumes "GetCookie (request w) (Cookie (config (manager w))) opts = []"
  shows "Start_with p_Init p_Read w opts =
     (fst (p_Init w (SessionIDGenerator (config (manager w)) (request w))
             (Expires (config (manager w)))),
      updateCookie
        (set_isNew
           (snd (p_Init w (SessionIDGenerator (config (manager w)) (request w))
                   (Expires (config (manager w)))))
           (fst (p_Init w (SessionIDGenerator (config (manager w)) (request w))
                   (Expires (config (manager w)))))
           (db_Len
              (db (provider (manager
                 (snd (p_Init w (SessionIDGenerator (config (manager w)) (request w))
                         (Expires (config (manager w))))))))
              (SessionIDGenerator (config (manager w)) (request w)) = 0))
        (SessionIDGenerator (config (manager w)) (request w))
        (Expires (config (manager w))) opts)"
  using assms by (simp add: Start_with_def Let_def case_prod_beta)

lemma Start_absent:
  assumes "GetCookie (request w) (Cookie (config (manager w))) opts = []"
  shows "Start w opts =
     (fst (provider_Init w (SessionIDGenerator (config (manager w)) (request w))
             (Expires (config (manager w)))),
      updateCookie
        (set_isNew
           (snd (provider_Init w (SessionIDGenerator (config (manager w)) (request w))
                   (Expires (config (manager w)))))
           (fst (provider_Init w (SessionIDGenerator (config (manager w)) (request w))
                   (Expires (config (manager w)))))
           (db_Len (db (provider (manager w)))
              (SessionIDGenerator (config (manager w)) (request w)) = 0))
        (SessionIDGenerator (config (manager w)) (request w))
        (Expires (config (manager w))) opts)"
  using assms by (simp add: Start_def Start_with_absent provider_Init_db)

lemma Start_present:
  assumes "GetCookie (request w) (Cookie (config (manager w))) opts \<noteq> []"
  shows "Start w opts =
     provider_Read w (GetCookie (request w) (Cookie (config (manager w))) opts)
       (Expires (config (manager w)))"
  using assms by (simp add: Start_def Start_with_def Let_def)

lemma Start_absent_response:
  assumes "GetCookie (request w) (Cookie (config (manager w))) opts = []"
  shows "\<exists>c. response (request (snd (Start w opts))) =
               response (request w) @ [Upserted c (cookie_options (request w) @ opts)] \<and>
             Cookie_Name c = Cookie (config (manager w)) \<and>
             Cookie_Value c = SessionIDGenerator (config (manager w)) (request w)"
proof -
  let ?sid = "SessionIDGenerator (config (manager w)) (request w)"
  let ?init = "provider_Init w ?sid (Expires (config (manager w)))"
  let ?w2 = "set_isNew (snd ?init) (fst ?init) (db_Len (db (provider (manager w))) ?sid = 0)"
  have "request ?w2 = request w" "config (manager ?w2) = config (manager w)"
    by (simp_all add: set_isNew_frame provider_Init_request provider_Init_config)
  with updateCookie_response [of ?w2 ?sid "Expires (config (manager w))" opts]
  show ?thesis by (auto simp add: Start_absent [OF assms])
qed

lemma Start_cookie_options:
  "cookie_options (request (snd (Start w opts))) = cookie_options (request w)"
proof (cases "GetCookie (request w) (Cookie (config (manager w))) opts = []")
  case True
  show ?thesis
    by (simp add: Start_absent [OF True] updateCookie_def UpsertCookie_def time_Until_def
        time_Now_def set_isNew_frame provider_Init_request Let_def split: prod.splits)
next
  case False
  show ?thesis
    by (simp add: Start_present [OF False] provider_Read_request)
qed

subsection \<open>The branches of \<open>UpdateExpiration\<close> and \<open>Destroy\<close>\<close>

lemma UpdateExpiration_absent:
  "GetCookie (request w) (Cookie (config (manager w))) [] = [] \<Longrightarrow>
   UpdateExpiration w e opts = (Some ErrNotFound, w)"
  by (simp add: UpdateExpiration_def Let_def)

lemma UpdateExpiration_rewrites:
  assumes "GetCookie (request w) (Cookie (config (manager w))) [] = v" and "v \<noteq> []"
    and "provider_UpdateExpiration w v e = (err, w1)"
    and "err = None \<or> e = - 1"
  shows "UpdateExpiration w e opts = (err, updateCookie w1 v e opts)"
  using assms by (simp add: UpdateExpiration_def Let_def)

lemma UpdateExpiration_keeps:
  assumes "GetCookie (request w) (Cookie (config (manager w))) [] = v" and "v \<noteq> []"
    and "provider_UpdateExpiration w v e = (err, w1)"
    and "err \<noteq> None" and "e \<noteq> - 1"
  shows "UpdateExpiration w e opts = (err, w1)"
  using assms by (cases err) (simp_all add: UpdateExpiration_def Let_def)

lemma updateCookie_after_provider_update:
  assumes "provider_UpdateExpiration w v e = (err, w1)"
  shows "\<exists>c. response (request (updateCookie w1 v e' opts)) =
               response (request w) @ [Upserted c (cookie_options (request w) @ opts)] \<and>
             Cookie_Name c = Cookie (config (manager w)) \<and> Cookie_Value c = v"
proof -
  have "request w1 = request w" "config (manager w1) = config (manager w)"
    using provider_UpdateExpiration_request [of w v e]
      provider_UpdateExpiration_config [of w v e] assms by simp_all
  with updateCookie_response [of w1 v e' opts] show ?thesis by simp
qed

lemma Destroy_present:
  assumes "GetCookie (request w) (Cookie (config (manager w))) [] \<noteq> []"
  shows "Destroy w =
     (provider_Destroy w (GetCookie (request w) (Cookie (config (manager w))) []))
       \<lparr>request := RemoveCookie (Values_Remove (request w) sessionContextKey)
                     (Cookie (config (manager w))) []\<rparr>"
  using assms by (simp add: Destroy_def Let_def provider_Destroy_request_update)

lemma requestOptions_flags:
  "(CookieAllowReclaim [Cookie cfg] \<in> set (requestOptions cfg)) = AllowReclaim cfg"
  "(CookieAllowSubdomains [Cookie cfg] \<in> set (requestOptions cfg)) =
     (\<not> DisableSubdomainPersistence cfg)"
  "(CookieSecure \<in> set (requestOptions cfg)) = CookieSecureTLS cfg"
  "(CookieEncoding enc [Cookie cfg] \<in> set (requestOptions cfg)) = (Encoding cfg = Some enc)"
  by (auto simp add: requestOptions_def split: option.splits)

section \<open>The claims\<close>

text \<open>
  C1. \<open>Start\<close>, cookie absent (\<^verbatim>\<open>GetCookie\<close> yields the empty string, the
  source's test for "cookie doesn't exist"): the id comes from the configured
  \<open>SessionIDGenerator\<close>, \<open>provider_Init\<close> is run with that id and the configured
  expiration, the pointer it returns is the result, and the response gains exactly one
  cookie write, named by the configuration and carrying the id. Cookie present: \<open>Start\<close>
  is \<open>provider_Read\<close> on the cookie's value and the configured expiration, and the
  request context, hence the response's cookies, is left as it was.
\<close>

theorem Start_absent_or_present:
  "(GetCookie (request w) (Cookie (config (manager w))) opts = [] \<longrightarrow>
      (let sid = SessionIDGenerator (config (manager w)) (request w);
           init = provider_Init w sid (Expires (config (manager w)));
           w2 = set_isNew (snd init) (fst init)
                  (db_Len (db (provider (manager (snd init)))) sid = 0)
       in fst (Start w opts) = fst init \<and>
          snd (Start w opts) = updateCookie w2 sid (Expires (config (manager w))) opts \<and>
          manager (snd (Start w opts)) = manager (snd init) \<and>
          (\<exists>c. response (request (snd (Start w opts))) =
                 response (request w) @ [Upserted c (cookie_options (request w) @ opts)] \<and>
               Cookie_Name c = Cookie (config (manager w)) \<and> Cookie_Value c = sid))) \<and>
   (GetCookie (request w) (Cookie (config (manager w))) opts \<noteq> [] \<longrightarrow>
      Start w opts =
        provider_Read w (GetCookie (request w) (Cookie (config (manager w))) opts)
          (Expires (config (manager w))) \<and>
      request (snd (Start w opts)) = request w)"
proof (intro conjI impI)
  assume absent: "GetCookie (request w) (Cookie (config (manager w))) opts = []"
  show "let sid = SessionIDGenerator (config (manager w)) (request w);
           init = provider_Init w sid (Expires (config (manager w)));
           w2 = set_isNew (snd init) (fst init)
                  (db_Len (db (provider (manager (snd init)))) sid = 0)
       in fst (Start w opts) = fst init \<and>
          snd (Start w opts) = updateCookie w2 sid (Expires (config (manager w))) opts \<and>
          manager (snd (Start w opts)) = manager (snd init) \<and>
          (\<exists>c. response (request (snd (Start w opts))) =
                 response (request w) @ [Upserted c (cookie_options (request w) @ opts)] \<and>
               Cookie_Name c = Cookie (config (manager w)) \<and> Cookie_Value c = sid)"
    unfolding Let_def
    using Start_absent_response [OF absent]
    by (simp add: Start_absent [OF absent] provider_Init_db updateCookie_frame set_isNew_frame)
next
  assume present: "GetCookie (request w) (Cookie (config (manager w))) opts \<noteq> []"
  then show "Start w opts =
        provider_Read w (GetCookie (request w) (Cookie (config (manager w))) opts)
          (Expires (config (manager w)))"
    by (rule Start_present)
  then show "request (snd (Start w opts)) = request w"
    by (simp add: provider_Read_request)
qed

theorem Start_absent_or_present_witness:
  "GetCookie (request world0) (Cookie (config (manager world0))) [] = [] \<and>
   fst (Start world0 []) = 0 \<and>
   response (request (snd (Start world0 []))) =
     [Upserted \<lparr>Cookie_Name = ''sid'', Cookie_Value = ''abc123'', Cookie_Path = ''/'',
                 Cookie_HttpOnly = True, Cookie_Expires = 64713088000000000000,
                 Cookie_MaxAge = 784000000\<rparr> []] \<and>
   GetCookie (request world1) (Cookie (config (manager world1))) [] = ''abc123'' \<and>
   fst (Start world1 []) = 0 \<and>
   response (request (snd (Start world1 []))) = []"
  using Start_absent_or_present [of world0 "[]"] Start_absent_or_present [of world1 "[]"]
  by (simp add: scenario_defs model_defs Let_def)

text \<open>
  C2, as amended. Every cookie that \<open>updateCookie\<close> writes (the write of \<open>Start\<close> on
  a new session and of an expiration update) is named by the configuration, carries the
  id, has path \<^verbatim>\<open>/\<close> and is \<^verbatim>\<open>HttpOnly\<close>; its expiration follows the duration: a
  negative duration leaves \<^verbatim>\<open>Expires\<close> and \<^verbatim>\<open>MaxAge\<close> at their zero values, so the
  cookie has no expiration attribute; a zero duration sets \<^verbatim>\<open>Expires\<close> to
  \<open>CookieExpireUnlimited\<close> and \<^verbatim>\<open>MaxAge\<close> to the seconds from the clock's reading
  until then; a positive duration sets \<^verbatim>\<open>Expires\<close> to the clock's reading plus the
  duration and \<^verbatim>\<open>MaxAge\<close> to the seconds from the clock's next reading until then.
\<close>

theorem updateCookie_policy:
  "\<exists>c. response (request (updateCookie w sid expires options)) =
         response (request w) @ [Upserted c (cookie_options (request w) @ options)] \<and>
       Cookie_Name c = Cookie (config (manager w)) \<and> Cookie_Value c = sid \<and>
       Cookie_Path c = ''/'' \<and> Cookie_HttpOnly c \<and>
       (if expires < 0 then no_expiration_attribute c
        else if expires = 0 then
          Cookie_Expires c = CookieExpireUnlimited w \<and>
          Cookie_MaxAge c =
            seconds_int w (time_Sub (CookieExpireUnlimited w) (clock w (ticks w)))
        else
          Cookie_Expires c = clock w (ticks w) + expires \<and>
          Cookie_MaxAge c =
            seconds_int w (time_Sub (clock w (ticks w) + expires) (clock w (Suc (ticks w)))))"
  by (simp add: updateCookie_def UpsertCookie_def empty_Cookie_def time_Until_def time_Now_def
      time_Add_def no_expiration_attribute_def has_Expires_def has_MaxAge_def Let_def
      split: prod.splits)

theorem updateCookie_policy_witness:
  "(\<exists>c. response (request (updateCookie world0 ''abc123'' 3600000000000 [])) = [Upserted c []] \<and>
        Cookie_Expires c = 63929091600000000000 \<and> Cookie_MaxAge c = 3599) \<and>
   (\<exists>c. response (request (updateCookie world0 ''abc123'' 0 [])) = [Upserted c []] \<and>
        Cookie_Expires c = 64713088000000000000 \<and> Cookie_MaxAge c = 784000000) \<and>
   (\<exists>c. response (request (updateCookie world0 ''abc123'' (- 1) [])) = [Upserted c []] \<and>
        no_expiration_attribute c)"
  using updateCookie_policy [of world0 "''abc123''" 3600000000000 "[]"]
    updateCookie_policy [of world0 "''abc123''" 0 "[]"]
    updateCookie_policy [of world0 "''abc123''" "- 1" "[]"]
  by (simp add: scenario_defs model_defs Let_def)

text \<open>
  The claim as stated fails twice. With the duration \<open>-1\<close> the written cookie has
  \<^verbatim>\<open>MaxAge = 0\<close> and no \<^verbatim>\<open>Expires\<close>: it does not expire immediately. With the
  configured duration \<open>0\<close> (the example of the spec) the cookie that \<open>Start\<close> writes has
  both \<^verbatim>\<open>Expires\<close> and \<^verbatim>\<open>MaxAge\<close>.
\<close>

theorem updateCookie_policy_counterexample:
  "written_cookie (updateCookie world0 ''abc123'' (- 1) []) =
     Some \<lparr>Cookie_Name = ''sid'', Cookie_Value = ''abc123'', Cookie_Path = ''/'',
           Cookie_HttpOnly = True, Cookie_Expires = 0, Cookie_MaxAge = 0\<rparr> \<and>
   \<not> expires_immediately (clock world0 0)
       \<lparr>Cookie_Name = ''sid'', Cookie_Value = ''abc123'', Cookie_Path = ''/'',
        Cookie_HttpOnly = True, Cookie_Expires = 0, Cookie_MaxAge = 0\<rparr> \<and>
   Expires (config (manager world0)) = 0 \<and>
   written_cookie (snd (Start world0 [])) =
     Some \<lparr>Cookie_Name = ''sid'', Cookie_Value = ''abc123'', Cookie_Path = ''/'',
           Cookie_HttpOnly = True, Cookie_Expires = 64713088000000000000,
           Cookie_MaxAge = 784000000\<rparr> \<and>
   \<not> no_expiration_attribute
       \<lparr>Cookie_Name = ''sid'', Cookie_Value = ''abc123'', Cookie_Path = ''/'',
        Cookie_HttpOnly = True, Cookie_Expires = 64713088000000000000,
        Cookie_MaxAge = 784000000\<rparr>"
  by (simp add: scenario_defs model_defs Let_def expires_immediately_def
      no_expiration_attribute_def has_Expires_def has_MaxAge_def)

text \<open>
  C3, as amended. \<open>UpdateExpiration\<close> returns \<open>ErrNotFound\<close> and changes nothing
  when the cookie is absent. When the cookie is present it returns what
  \<open>provider_UpdateExpiration\<close> returns for the cookie's value, which is \<open>ErrNotFound\<close>
  for an id unknown to the registry and the database; and it rewrites the cookie (one
  cookie write carrying the value, through \<open>updateCookie\<close> with the requested duration)
  exactly when the provider returned no error or the requested duration is exactly
  \<open>-1\<close>; otherwise the request context is left unchanged.
\<close>

theorem UpdateExpiration_errors_and_rewrite:
  "(GetCookie (request w) (Cookie (config (manager w))) [] = [] \<longrightarrow>
      UpdateExpiration w e opts = (Some ErrNotFound, w)) \<and>
   (GetCookie (request w) (Cookie (config (manager w))) [] \<noteq> [] \<longrightarrow>
      (let v = GetCookie (request w) (Cookie (config (manager w))) [];
           upd = provider_UpdateExpiration w v e;
           res = UpdateExpiration w e opts
       in fst res = fst upd \<and>
          (unknown_id w v \<longrightarrow> fst res = Some ErrNotFound) \<and>
          (if fst upd = None \<or> e = - 1
           then snd res = updateCookie (snd upd) v e opts \<and>
                (\<exists>c. response (request (snd res)) =
                        response (request w) @ [Upserted c (cookie_options (request w) @ opts)] \<and>
                      Cookie_Name c = Cookie (config (manager w)) \<and> Cookie_Value c = v)
           else snd res = snd upd \<and> request (snd res) = request w)))"
proof (intro conjI impI)
  assume "GetCookie (request w) (Cookie (config (manager w))) [] = []"
  then show "UpdateExpiration w e opts = (Some ErrNotFound, w)"
    by (rule UpdateExpiration_absent)
next
  assume present: "GetCookie (request w) (Cookie (config (manager w))) [] \<noteq> []"
  define v where "v = GetCookie (request w) (Cookie (config (manager w))) []"
  obtain err w1 where upd: "provider_UpdateExpiration w v e = (err, w1)"
    by (cases "provider_UpdateExpiration w v e")
  have v: "GetCookie (request w) (Cookie (config (manager w))) [] = v" "v \<noteq> []"
    using present by (simp_all add: v_def)
  have unk: "unknown_id w v \<Longrightarrow> err = Some ErrNotFound"
    using provider_UpdateExpiration_unknown [of w v e] upd by simp
  have req: "request w1 = request w"
    using provider_UpdateExpiration_request [of w v e] upd by simp
  have "fst (UpdateExpiration w e opts) = err \<and>
        (unknown_id w v \<longrightarrow> fst (UpdateExpiration w e opts) = Some ErrNotFound) \<and>
        (if err = None \<or> e = - 1
         then snd (UpdateExpiration w e opts) = updateCookie w1 v e opts \<and>
              (\<exists>c. response (request (snd (UpdateExpiration w e opts))) =
                      response (request w) @ [Upserted c (cookie_options (request w) @ opts)] \<and>
                    Cookie_Name c = Cookie (config (manager w)) \<and> Cookie_Value c = v)
         else snd (UpdateExpiration w e opts) = w1 \<and>
              request (snd (UpdateExpiration w e opts)) = request w)"
  proof (cases "err = None \<or> e = - 1")
    case True
    have "UpdateExpiration w e opts = (err, updateCookie w1 v e opts)"
      by (rule UpdateExpiration_rewrites [OF v upd True])
    with True unk updateCookie_after_provider_update [OF upd, of e opts]
    show ?thesis by auto
  next
    case False
    then have "UpdateExpiration w e opts = (err, w1)"
      using UpdateExpiration_keeps [OF v upd] by simp
    with False unk req show ?thesis by auto
  qed
  then show "let v = GetCookie (request w) (Cookie (config (manager w))) [];
           upd = provider_UpdateExpiration w v e;
           res = UpdateExpiration w e opts
       in fst res = fst upd \<and>
          (unknown_id w v \<longrightarrow> fst res = Some ErrNotFound) \<and>
          (if fst upd = None \<or> e = - 1
           then snd res = updateCookie (snd upd) v e opts \<and>
                (\<exists>c. response (request (snd res)) =
                        response (request w) @ [Upserted c (cookie_options (request w) @ opts)] \<and>
                      Cookie_Name c = Cookie (config (manager w)) \<and> Cookie_Value c = v)
           else snd res = snd upd \<and> request (snd res) = request w)"
    unfolding Let_def v_def [symmetric] upd fst_conv snd_conv .
qed

theorem UpdateExpiration_errors_and_rewrite_witness:
  "GetCookie (request world0) (Cookie (config (manager world0))) [] = [] \<and>
   UpdateExpiration world0 3600000000000 [] = (Some ErrNotFound, world0) \<and>
   GetCookie (request world_unknown) (Cookie (config (manager world_unknown))) [] = ''zzz'' \<and>
   unknown_id world_unknown ''zzz'' \<and>
   fst (UpdateExpiration world_unknown 3600000000000 []) = Some ErrNotFound \<and>
   response (request (snd (UpdateExpiration world_unknown 3600000000000 []))) = [] \<and>
   GetCookie (request world1) (Cookie (config (manager world1))) [] = ''abc123'' \<and>
   fst (UpdateExpiration world1 3600000000000 []) = None \<and>
   response (request (snd (UpdateExpiration world1 3600000000000 []))) =
     [Upserted \<lparr>Cookie_Name = ''sid'', Cookie_Value = ''abc123'', Cookie_Path = ''/'',
                 Cookie_HttpOnly = True, Cookie_Expires = 63929091600000002000,
                 Cookie_MaxAge = 3599\<rparr> []] \<and>
   fst (UpdateExpiration world1 (- 5) []) = None \<and>
   response (request (snd (UpdateExpiration world1 (- 5) []))) =
     [Upserted \<lparr>Cookie_Name = ''sid'', Cookie_Value = ''abc123'', Cookie_Path = ''/'',
                 Cookie_HttpOnly = True, Cookie_Expires = 0, Cookie_MaxAge = 0\<rparr> []] \<and>
   GetCookie (request world_readonly) (Cookie (config (manager world_readonly))) [] =
     ''abc123'' \<and>
   fst (UpdateExpiration world_readonly (- 1) []) = Some ErrNotImplemented \<and>
   response (request (snd (UpdateExpiration world_readonly (- 1) []))) =
     [Upserted \<lparr>Cookie_Name = ''sid'', Cookie_Value = ''abc123'', Cookie_Path = ''/'',
                 Cookie_HttpOnly = True, Cookie_Expires = 0, Cookie_MaxAge = 0\<rparr> []] \<and>
   fst (UpdateExpiration world_readonly (- 5) []) = Some ErrNotImplemented \<and>
   response (request (snd (UpdateExpiration world_readonly (- 5) []))) = []"
  using UpdateExpiration_errors_and_rewrite [of world0 3600000000000 "[]"]
    UpdateExpiration_errors_and_rewrite [of world_unknown 3600000000000 "[]"]
    UpdateExpiration_errors_and_rewrite [of world1 3600000000000 "[]"]
    UpdateExpiration_errors_and_rewrite [of world1 "- 5" "[]"]
    UpdateExpiration_errors_and_rewrite [of world_readonly "- 1" "[]"]
    UpdateExpiration_errors_and_rewrite [of world_readonly "- 5" "[]"]
  by (simp add: scenario_defs model_defs Let_def)

text \<open>
  The claim as stated fails twice. A negative duration other than \<open>-1\<close> asks for
  immediate expiry as well (the provider schedules \<open>ExpireImmediately\<close> for it), yet
  with the duration \<open>-2\<close> and an id the provider does not know the error is returned
  and nothing is written. And with no cookie in the request the duration \<open>-1\<close> writes
  nothing either.
\<close>

theorem UpdateExpiration_rewrite_counterexample:
  "GetCookie (request world_unknown) (Cookie (config (manager world_unknown))) [] = ''zzz'' \<and>
   fst (schedule world_unknown (- 2)) = ExpireImmediately \<and>
   UpdateExpiration world_unknown (- 2) [] = (Some ErrNotFound, world_unknown) \<and>
   response (request (snd (UpdateExpiration world_unknown (- 2) []))) = [] \<and>
   GetCookie (request world0) (Cookie (config (manager world0))) [] = [] \<and>
   UpdateExpiration world0 (- 1) [] = (Some ErrNotFound, world0) \<and>
   response (request (snd (UpdateExpiration world0 (- 1) []))) = []"
  by (simp add: scenario_defs model_defs Let_def)

text \<open>
  C4. When \<open>Start\<close> finds no cookie, whatever Session the provider's \<^verbatim>\<open>Init\<close>
  created, \<open>Start\<close> returns that Session with its \<open>isNew\<close> flag overwritten by "the
  database has no entries for the id" and with everything else, the store included, as
  \<^verbatim>\<open>Init\<close> left it. With the provider of the spec, whose \<^verbatim>\<open>Init\<close> creates the
  Record with an empty store and writes nothing to the database, the Session has the
  generated id, \<open>isNew\<close> equal to "the database had no entries for the id" and a store
  of length 0; so for an id never seen before, by the registry or the database, \<open>isNew\<close>
  is true. With that provider the same holds when the request presents a cookie whose
  id was never seen before.
\<close>

theorem Start_new_session:
  "(GetCookie (request w) (Cookie (config (manager w))) opts = [] \<longrightarrow>
      (let sid = SessionIDGenerator (config (manager w)) (request w);
           created = p_Init w sid (Expires (config (manager w)));
           res = Start_with p_Init p_Read w opts
       in \<forall>s0. deref (snd created) (fst created) = Some s0 \<longrightarrow>
            fst res = fst created \<and>
            deref (snd res) (fst res) =
              Some (s0\<lparr>isNew := (db_Len (db (provider (manager (snd created)))) sid = 0)\<rparr>))) \<and>
   (GetCookie (request w) (Cookie (config (manager w))) opts = [] \<longrightarrow>
      (let sid = SessionIDGenerator (config (manager w)) (request w)
       in \<exists>sess. deref (snd (Start w opts)) (fst (Start w opts)) = Some sess \<and>
            sess_id sess = sid \<and>
            isNew sess = (db_Len (db (provider (manager w))) sid = 0) \<and>
            session_Len sess = 0 \<and>
            (unknown_id w sid \<longrightarrow> isNew sess))) \<and>
   (GetCookie (request w) (Cookie (config (manager w))) opts \<noteq> [] \<and>
    unknown_id w (GetCookie (request w) (Cookie (config (manager w))) opts) \<longrightarrow>
      (\<exists>sess. deref (snd (Start w opts)) (fst (Start w opts)) = Some sess \<and>
         sess_id sess = GetCookie (request w) (Cookie (config (manager w))) opts \<and>
         isNew sess \<and> session_Len sess = 0))"
proof (intro conjI impI)
  assume absent: "GetCookie (request w) (Cookie (config (manager w))) opts = []"
  show "let sid = SessionIDGenerator (config (manager w)) (request w);
           created = p_Init w sid (Expires (config (manager w)));
           res = Start_with p_Init p_Read w opts
       in \<forall>s0. deref (snd created) (fst created) = Some s0 \<longrightarrow>
            fst res = fst created \<and>
            deref (snd res) (fst res) =
              Some (s0\<lparr>isNew := (db_Len (db (provider (manager (snd created)))) sid = 0)\<rparr>)"
    unfolding Let_def
    by (simp add: Start_with_absent [OF absent] deref_updateCookie deref_set_isNew)
next
  assume absent: "GetCookie (request w) (Cookie (config (manager w))) opts = []"
  show "let sid = SessionIDGenerator (config (manager w)) (request w)
       in \<exists>sess. deref (snd (Start w opts)) (fst (Start w opts)) = Some sess \<and>
            sess_id sess = sid \<and>
            isNew sess = (db_Len (db (provider (manager w))) sid = 0) \<and>
            session_Len sess = 0 \<and>
            (unknown_id w sid \<longrightarrow> isNew sess)"
    unfolding Let_def
    by (simp add: Start_absent [OF absent] deref_updateCookie
        deref_set_isNew [OF provider_Init_creates] session_Len_def unknown_id_def)
next
  assume "GetCookie (request w) (Cookie (config (manager w))) opts \<noteq> [] \<and>
    unknown_id w (GetCookie (request w) (Cookie (config (manager w))) opts)"
  then show "\<exists>sess. deref (snd (Start w opts)) (fst (Start w opts)) = Some sess \<and>
         sess_id sess = GetCookie (request w) (Cookie (config (manager w))) opts \<and>
         isNew sess \<and> session_Len sess = 0"
    by (simp add: Start_present provider_Read_unknown provider_Init_creates session_Len_def
        unknown_id_def)
qed

theorem Start_new_session_witness:
  "GetCookie (request world0) (Cookie (config (manager world0))) [] = [] \<and>
   unknown_id world0 ''abc123'' \<and>
   deref (snd (Init_leaving False world0 ''abc123'' 0))
       (fst (Init_leaving False world0 ''abc123'' 0)) =
     Some \<lparr>sess_id = ''abc123'', expiresAt = Unlimited, isNew = False, store = []\<rparr> \<and>
   deref (snd (Start_with (Init_leaving False) provider_Read world0 []))
       (fst (Start_with (Init_leaving False) provider_Read world0 [])) =
     Some \<lparr>sess_id = ''abc123'', expiresAt = Unlimited, isNew = True, store = []\<rparr> \<and>
   deref (snd (Start world0 [])) (fst (Start world0 [])) =
     Some \<lparr>sess_id = ''abc123'', expiresAt = Unlimited, isNew = True, store = []\<rparr> \<and>
   GetCookie (request world_persisted) (Cookie (config (manager world_persisted))) [] = [] \<and>
   db_Len (db (provider (manager world_persisted))) ''abc123'' = 1 \<and>
   deref (snd (Init_leaving True world_persisted ''abc123'' 0))
       (fst (Init_leaving True world_persisted ''abc123'' 0)) =
     Some \<lparr>sess_id = ''abc123'', expiresAt = Unlimited, isNew = True, store = []\<rparr> \<and>
   deref (snd (Start_with (Init_leaving True) provider_Read world_persisted []))
       (fst (Start_with (Init_leaving True) provider_Read world_persisted [])) =
     Some \<lparr>sess_id = ''abc123'', expiresAt = Unlimited, isNew = False, store = []\<rparr> \<and>
   GetCookie (request world_unknown) (Cookie (config (manager world_unknown))) [] = ''zzz'' \<and>
   unknown_id world_unknown ''zzz'' \<and>
   deref (snd (Start world_unknown [])) (fst (Start world_unknown [])) =
     Some \<lparr>sess_id = ''zzz'', expiresAt = Unlimited, isNew = True, store = []\<rparr>"
  using Start_new_session [of world0 "[]" "Init_leaving False" provider_Read]
    Start_new_session [of world_persisted "[]" "Init_leaving True" provider_Read]
    Start_new_session [of world_unknown "[]" provider_Init provider_Read]
  by (simp add: scenario_defs model_defs Let_def)

text \<open>
  C5. \<open>Destroy\<close> reads the configured cookie. Absent: the state is returned as it is.
  Present: the value under \<^verbatim>\<open>iris.session\<close> is removed from the request-scoped state
  (so \<open>Get\<close> yields nil), the response gains the removal of the configured cookie, and
  the rest of the state is what \<open>provider_Destroy\<close> on the cookie's value makes of it;
  the registry has no Record for that id afterwards.
\<close>

theorem Destroy_cookie_present_or_absent:
  "(GetCookie (request w) (Cookie (config (manager w))) [] = [] \<longrightarrow> Destroy w = w) \<and>
   (GetCookie (request w) (Cookie (config (manager w))) [] \<noteq> [] \<longrightarrow>
      (let v = GetCookie (request w) (Cookie (config (manager w))) []
       in Values (request (Destroy w)) = (Values (request w))(sessionContextKey := None) \<and>
          Get (request (Destroy w)) = None \<and>
          response (request (Destroy w)) =
            response (request w) @
              [Removed (Cookie (config (manager w))) (cookie_options (request w))] \<and>
          Destroy w = (provider_Destroy w v)\<lparr>request := request (Destroy w)\<rparr> \<and>
          map_of (sessions (provider (manager (Destroy w)))) v = None))"
proof (intro conjI impI)
  assume "GetCookie (request w) (Cookie (config (manager w))) [] = []"
  then show "Destroy w = w" by (simp add: Destroy_def Let_def)
next
  assume present: "GetCookie (request w) (Cookie (config (manager w))) [] \<noteq> []"
  show "let v = GetCookie (request w) (Cookie (config (manager w))) []
       in Values (request (Destroy w)) = (Values (request w))(sessionContextKey := None) \<and>
          Get (request (Destroy w)) = None \<and>
          response (request (Destroy w)) =
            response (request w) @
              [Removed (Cookie (config (manager w))) (cookie_options (request w))] \<and>
          Destroy w = (provider_Destroy w v)\<lparr>request := request (Destroy w)\<rparr> \<and>
          map_of (sessions (provider (manager (Destroy w)))) v = None"
    unfolding Let_def
    by (simp add: Destroy_present [OF present] RemoveCookie_def Values_Remove_def Get_def
        Values_Get_def provider_Destroy_unregisters)
qed

theorem Destroy_cookie_present_or_absent_witness:
  "GetCookie (request world0) (Cookie (config (manager world0))) [] = [] \<and>
   Destroy world0 = world0 \<and>
   GetCookie (request world1) (Cookie (config (manager world1))) [] = ''abc123'' \<and>
   sessions (provider (manager world1)) = [(''abc123'', 0)] \<and>
   sessions (provider (manager (Destroy world1))) = [] \<and>
   response (request (Destroy world1)) = [Removed ''sid'' []] \<and>
   Get (request (Destroy world1)) = None"
  using Destroy_cookie_present_or_absent [of world0]
    Destroy_cookie_present_or_absent [of world1]
  by (simp add: scenario_defs model_defs Let_def Get_def sessionContextKey_def)

text \<open>
  C6, as amended. \<open>Get\<close> returns the \<^verbatim>\<open>*Session\<close> stored under \<^verbatim>\<open>iris.session\<close> in
  the request-scoped state; it returns nil when no \<^verbatim>\<open>*Session\<close> is stored there; and
  it returns nil after a \<open>Destroy\<close> that found the configured cookie in the request.
\<close>

theorem Get_session_or_nil:
  "(Values_Get ctx sessionContextKey = Some (VSession p) \<longrightarrow> Get ctx = p) \<and>
   ((\<forall>p. Values_Get ctx sessionContextKey \<noteq> Some (VSession p)) \<longrightarrow> Get ctx = None) \<and>
   (GetCookie (request w) (Cookie (config (manager w))) [] \<noteq> [] \<longrightarrow>
      Get (request (Destroy w)) = None)"
proof (intro conjI impI)
  assume "Values_Get ctx sessionContextKey = Some (VSession p)"
  then show "Get ctx = p" by (simp add: Get_def)
next
  assume "\<forall>p. Values_Get ctx sessionContextKey \<noteq> Some (VSession p)"
  then show "Get ctx = None"
    by (auto simp add: Get_def split: option.splits ctx_value.splits)
next
  assume present: "GetCookie (request w) (Cookie (config (manager w))) [] \<noteq> []"
  show "Get (request (Destroy w)) = None"
    by (simp add: Destroy_present [OF present] RemoveCookie_def Values_Remove_def Get_def
        Values_Get_def)
qed

theorem Get_session_or_nil_witness:
  "Values_Get (request (fst (Handler world0 []) (\<lambda>w. w) world1)) sessionContextKey =
     Some (VSession (Some 0)) \<and>
   Get (request (fst (Handler world0 []) (\<lambda>w. w) world1)) = Some 0 \<and>
   Values_Get ctx0 sessionContextKey = None \<and>
   Get ctx0 = None \<and>
   GetCookie (request (fst (Handler world0 []) (\<lambda>w. w) world1))
     (Cookie (config (manager (fst (Handler world0 []) (\<lambda>w. w) world1)))) [] = ''abc123'' \<and>
   Get (request (Destroy (fst (Handler world0 []) (\<lambda>w. w) world1))) = None"
  using Get_session_or_nil [of "request (fst (Handler world0 []) (\<lambda>w. w) world1)" "Some 0"
      "fst (Handler world0 []) (\<lambda>w. w) world1"]
    Get_session_or_nil [of ctx0 None world1]
  by (simp add: scenario_defs model_defs Let_def Handler_def Handler_func_def Get_def
      requestOptions_def sessionContextKey_def)

text \<open>
  The claim as stated fails on a first visit: the request carries no cookie, the
  middleware starts a session and attaches it, a handler further down calls \<open>Destroy\<close>,
  which finds no cookie in the request and returns at once; \<open>Get\<close> still returns the
  session.
\<close>

theorem Get_after_Destroy_counterexample:
  "Get (request (fst (Handler world0 []) Destroy world0)) = Some 0"
  by (simp add: scenario_defs model_defs Let_def Handler_def Handler_func_def Get_def
      requestOptions_def sessionContextKey_def)

text \<open>
  C7. \<open>Handler\<close> keeps the options it was given and returns a middleware that, on every
  request, adds the manager-wide options to the request's cookie options (reclaim when
  \<open>AllowReclaim\<close>, subdomains unless \<open>DisableSubdomainPersistence\<close>, secure when
  \<open>CookieSecureTLS\<close>, encoding when \<open>Encoding\<close> is set), runs \<open>Start\<close> with the
  per-call options, stores the resulting Session under \<^verbatim>\<open>iris.session\<close>, and hands
  that state to the rest of the chain. The cookie a new session writes carries the
  request's options, then the manager-wide ones, then the per-call ones.
\<close>

theorem Handler_attaches_session:
  "(let cfg = config (manager w);
        h = fst (Handler w opts);
        w1 = w0\<lparr>request := AddCookieOptions (request w0) (requestOptions cfg)\<rparr>;
        st = Start w1 opts;
        w3 = (snd st)\<lparr>request :=
                Values_Set (request (snd st)) ''iris.session'' (VSession (Some (fst st)))\<rparr>
    in handlerCookieOpts (manager (snd (Handler w opts))) = opts \<and>
       h next w0 = next w3 \<and>
       Get (request w3) = Some (fst st) \<and>
       cookie_options (request w3) = cookie_options (request w0) @ requestOptions cfg \<and>
       (CookieAllowReclaim [Cookie cfg] \<in> set (requestOptions cfg)) = AllowReclaim cfg \<and>
       (CookieAllowSubdomains [Cookie cfg] \<in> set (requestOptions cfg)) =
          (\<not> DisableSubdomainPersistence cfg) \<and>
       (CookieSecure \<in> set (requestOptions cfg)) = CookieSecureTLS cfg \<and>
       (\<forall>enc. (CookieEncoding enc [Cookie cfg] \<in> set (requestOptions cfg)) =
          (Encoding cfg = Some enc)) \<and>
       (GetCookie (request w0) (Cookie (config (manager w0))) opts = [] \<longrightarrow>
          (\<exists>c. response (request w3) =
             response (request w0) @
               [Upserted c (cookie_options (request w0) @ requestOptions cfg @ opts)])))"
proof -
  define cfg where "cfg = config (manager w)"
  define w1 where "w1 = w0\<lparr>request := AddCookieOptions (request w0) (requestOptions cfg)\<rparr>"
  define st where "st = Start w1 opts"
  define w3 where "w3 = (snd st)\<lparr>request :=
                Values_Set (request (snd st)) ''iris.session'' (VSession (Some (fst st)))\<rparr>"
  have a: "handlerCookieOpts (manager (snd (Handler w opts))) = opts"
    by (simp add: Handler_def Let_def)
  have b: "fst (Handler w opts) next w0 = next w3"
    by (simp add: Handler_def Handler_func_def Let_def case_prod_beta w3_def st_def w1_def
        cfg_def sessionContextKey_def)
  have c: "Get (request w3) = Some (fst st)"
    by (simp add: w3_def Get_def Values_Get_def Values_Set_def sessionContextKey_def)
  have d: "cookie_options (request w3) = cookie_options (request w0) @ requestOptions cfg"
    by (simp add: w3_def Values_Set_def st_def Start_cookie_options w1_def AddCookieOptions_def)
  have e: "\<exists>c. response (request w3) =
             response (request w0) @
               [Upserted c (cookie_options (request w0) @ requestOptions cfg @ opts)]"
    if "GetCookie (request w0) (Cookie (config (manager w0))) opts = []"
  proof -
    have "GetCookie (request w1) (Cookie (config (manager w1))) opts = []"
      using that by (simp add: w1_def GetCookie_def AddCookieOptions_def)
    from Start_absent_response [OF this] show ?thesis
      by (auto simp add: w3_def Values_Set_def st_def w1_def AddCookieOptions_def)
  qed
  show ?thesis
    unfolding Let_def cfg_def [symmetric] w1_def [symmetric] st_def [symmetric]
      w3_def [symmetric]
    using a b c d e by (simp add: requestOptions_flags)
qed

theorem Handler_attaches_session_witness:
  "GetCookie (request world0) (Cookie (config (manager world0))) [] = [] \<and>
   Get (request (fst (Handler world0 []) (\<lambda>w. w) world0)) = Some 0 \<and>
   cookie_options (request (fst (Handler world0 []) (\<lambda>w. w) world0)) =
     [CookieAllowSubdomains [''sid'']] \<and>
   response (request (fst (Handler world0 []) (\<lambda>w. w) world0)) =
     [Upserted \<lparr>Cookie_Name = ''sid'', Cookie_Value = ''abc123'', Cookie_Path = ''/'',
                 Cookie_HttpOnly = True, Cookie_Expires = 64713088000000000000,
                 Cookie_MaxAge = 784000000\<rparr> [CookieAllowSubdomains [''sid'']]]"
  using Handler_attaches_session [of world0 "[]" world0 "\<lambda>w. w"]
  by (simp add: scenario_defs model_defs Let_def Handler_def Handler_func_def Get_def
      requestOptions_def sessionContextKey_def)

text \<open>
  C8. \<open>DestroyByID\<close> and \<open>DestroyAll\<close> are the provider's \<open>Destroy\<close> and
  \<open>DestroyAll\<close>. Neither writes the request context, which is the same afterwards,
  and neither reads it: with any other context in its place the result is the same,
  up to that context.
\<close>

theorem DestroyByID_DestroyAll_frame:
  "DestroyByID w sid = provider_Destroy w sid \<and>
   DestroyAll w = provider_DestroyAll w \<and>
   request (DestroyByID w sid) = request w \<and>
   request (DestroyAll w) = request w \<and>
   DestroyByID (w\<lparr>request := ctx\<rparr>) sid = (DestroyByID w sid)\<lparr>request := ctx\<rparr> \<and>
   DestroyAll (w\<lparr>request := ctx\<rparr>) = (DestroyAll w)\<lparr>request := ctx\<rparr>"
  by (simp add: DestroyByID_def DestroyAll_def provider_Destroy_request
      provider_DestroyAll_request provider_Destroy_request_update
      provider_DestroyAll_request_update)

theorem DestroyByID_DestroyAll_frame_witness:
  "sessions (provider (manager world1)) = [(''abc123'', 0)] \<and>
   sessions (provider (manager (DestroyByID world1 ''abc123''))) = [] \<and>
   sessions (provider (manager (DestroyAll world1))) = [] \<and>
   request (DestroyByID world1 ''abc123'') = request world1 \<and>
   request (DestroyAll world1) = request world1"
  using DestroyByID_DestroyAll_frame [of world1 "''abc123''" ctx0]
  by (simp add: scenario_defs model_defs Let_def provider_DestroyAll_def)

text \<open>
  C9. \<open>ShiftExpiration\<close> with cookie options is \<open>UpdateExpiration\<close> with the
  configured expiration and the same options: the same error and the same state.
\<close>

theorem ShiftExpiration_is_UpdateExpiration:
  "ShiftExpiration w opts = UpdateExpiration w (Expires (config (manager w))) opts"
  by (simp add: ShiftExpiration_def)

theorem ShiftExpiration_is_UpdateExpiration_witness:
  "fst (ShiftExpiration world1 []) = None \<and>
   fst (UpdateExpiration world1 0 []) = None \<and>
   response (request (snd (ShiftExpiration world1 []))) =
     [Upserted \<lparr>Cookie_Name = ''sid'', Cookie_Value = ''abc123'', Cookie_Path = ''/'',
                 Cookie_HttpOnly = True, Cookie_Expires = 64713088000000000000,
                 Cookie_MaxAge = 783999999\<rparr> []]"
  using ShiftExpiration_is_UpdateExpiration [of world1 "[]"]
  by (simp add: scenario_defs model_defs Let_def)

text \<open>
  C10. With the cookie present, \<open>UpdateExpiration\<close> returns the provider's result.
  When the duration is exactly \<open>-1\<close> the cookie is rewritten whether or not the provider
  returned an error; for any other negative duration, a provider error leaves the
  response's cookies as they were.
\<close>

theorem UpdateExpiration_minus_one:
  "GetCookie (request w) (Cookie (config (manager w))) [] \<noteq> [] \<longrightarrow>
     (let v = GetCookie (request w) (Cookie (config (manager w))) [];
          upd = provider_UpdateExpiration w v e;
          res = UpdateExpiration w e opts
      in fst res = fst upd \<and>
         (e = - 1 \<longrightarrow>
            snd res = updateCookie (snd upd) v e opts \<and>
            (\<exists>c. response (request (snd res)) =
                    response (request w) @ [Upserted c (cookie_options (request w) @ opts)] \<and>
                  Cookie_Name c = Cookie (config (manager w)) \<and> Cookie_Value c = v)) \<and>
         (e < 0 \<and> e \<noteq> - 1 \<and> fst upd \<noteq> None \<longrightarrow>
            snd res = snd upd \<and> response (request (snd res)) = response (request w)))"
proof (intro impI)
  assume present: "GetCookie (request w) (Cookie (config (manager w))) [] \<noteq> []"
  define v where "v = GetCookie (request w) (Cookie (config (manager w))) []"
  obtain err w1 where upd: "provider_UpdateExpiration w v e = (err, w1)"
    by (cases "provider_UpdateExpiration w v e")
  have v: "GetCookie (request w) (Cookie (config (manager w))) [] = v" "v \<noteq> []"
    using present by (simp_all add: v_def)
  have req: "request w1 = request w"
    using provider_UpdateExpiration_request [of w v e] upd by simp
  have fst_res: "fst (UpdateExpiration w e opts) = err"
    using UpdateExpiration_rewrites [OF v upd, of opts] UpdateExpiration_keeps [OF v upd, of opts]
    by (cases "err = None \<or> e = - 1") auto
  have minus_one: "snd (UpdateExpiration w e opts) = updateCookie w1 v e opts \<and>
            (\<exists>c. response (request (snd (UpdateExpiration w e opts))) =
                    response (request w) @ [Upserted c (cookie_options (request w) @ opts)] \<and>
                  Cookie_Name c = Cookie (config (manager w)) \<and> Cookie_Value c = v)"
    if "e = - 1"
  proof -
    have "UpdateExpiration w e opts = (err, updateCookie w1 v e opts)"
      using UpdateExpiration_rewrites [OF v upd] that by simp
    with updateCookie_after_provider_update [OF upd, of e opts] show ?thesis by simp
  qed
  have other: "snd (UpdateExpiration w e opts) = w1 \<and>
      response (request (snd (UpdateExpiration w e opts))) = response (request w)"
    if "e < 0 \<and> e \<noteq> - 1 \<and> err \<noteq> None"
  proof -
    have "UpdateExpiration w e opts = (err, w1)"
      using UpdateExpiration_keeps [OF v upd] that by simp
    with req show ?thesis by simp
  qed
  show "let v = GetCookie (request w) (Cookie (config (manager w))) [];
          upd = provider_UpdateExpiration w v e;
          res = UpdateExpiration w e opts
      in fst res = fst upd \<and>
         (e = - 1 \<longrightarrow>
            snd res = updateCookie (snd upd) v e opts \<and>
            (\<exists>c. response (request (snd res)) =
                    response (request w) @ [Upserted c (cookie_options (request w) @ opts)] \<and>
                  Cookie_Name c = Cookie (config (manager w)) \<and> Cookie_Value c = v)) \<and>
         (e < 0 \<and> e \<noteq> - 1 \<and> fst upd \<noteq> None \<longrightarrow>
            snd res = snd upd \<and> response (request (snd res)) = response (request w))"
    unfolding Let_def v_def [symmetric] upd fst_conv snd_conv
    using fst_res minus_one other by blast
qed

theorem UpdateExpiration_minus_one_witness:
  "GetCookie (request world_unknown) (Cookie (config (manager world_unknown))) [] = ''zzz'' \<and>
   fst (provider_UpdateExpiration world_unknown ''zzz'' (- 1)) = Some ErrNotFound \<and>
   fst (UpdateExpiration world_unknown (- 1) []) = Some ErrNotFound \<and>
   response (request (snd (UpdateExpiration world_unknown (- 1) []))) =
     [Upserted \<lparr>Cookie_Name = ''sid'', Cookie_Value = ''zzz'', Cookie_Path = ''/'',
                 Cookie_HttpOnly = True, Cookie_Expires = 0, Cookie_MaxAge = 0\<rparr> []] \<and>
   fst (provider_UpdateExpiration world_unknown ''zzz'' (- 2)) = Some ErrNotFound \<and>
   fst (UpdateExpiration world_unknown (- 2) []) = Some ErrNotFound \<and>
   response (request (snd (UpdateExpiration world_unknown (- 2) []))) = []"
  using UpdateExpiration_minus_one [of world_unknown "- 1" "[]"]
    UpdateExpiration_minus_one [of world_unknown "- 2" "[]"]
  by (simp add: scenario_defs model_defs Let_def)

end
